theory Spec2Isabelle
  imports Main "HOL-Library.List_Lexorder" "HOL-Library.Char_ord"
begin

section \<open>Core types of the locale tree (LocaleRecord, LocaleNode)\<close>

text \<open>
  The interface \<^verbatim>\<open>LocaleRecord\<close> and the class \<^verbatim>\<open>LocaleNode\<close>. An optional
  field (\<^verbatim>\<open>filepath?\<close>, \<^verbatim>\<open>shadow?\<close>) is an \<open>option\<close>, \<open>None\<close> standing for
  \<^verbatim>\<open>undefined\<close>. The constant tag field \<^verbatim>\<open>type\<close> is carried by the HOL type itself.
  A \<^verbatim>\<open>Record<string, LocaleRecord>\<close> is an association list in insertion order, read
  with \<open>map_of\<close>.
\<close>

record LocaleRecord =
  rec_keypath :: string
  rec_keyname :: string
  rec_value :: string
  rec_locale :: string
  rec_filepath :: "string option"
  rec_shadow :: "bool option"

record LocaleNode =
  node_keyname :: string
  node_keypath :: string
  node_locales :: "(string \<times> LocaleRecord) list"
  node_shadow :: bool

text \<open>
  The constructor of \<^verbatim>\<open>LocaleNode\<close>: \<^verbatim>\<open>locales\<close> defaults to the empty object and
  \<^verbatim>\<open>shadow\<close> to \<^verbatim>\<open>false\<close> when the argument is omitted; the key name is derived by
  \<^verbatim>\<open>getKeyname\<close>, which is imported from another module and therefore a parameter here.
\<close>

definition LocaleNode_new ::
  "(string \<Rightarrow> string) \<Rightarrow> string \<Rightarrow> (string \<times> LocaleRecord) list option \<Rightarrow> bool option \<Rightarrow> LocaleNode"
where
  "LocaleNode_new getKeyname keypath locales shadow =
     \<lparr> node_keyname = getKeyname keypath,
       node_keypath = keypath,
       node_locales = (case locales of None \<Rightarrow> [] | Some ls \<Rightarrow> ls),
       node_shadow = (case shadow of None \<Rightarrow> False | Some b \<Rightarrow> b) \<rparr>"

text \<open>
  \<^verbatim>\<open>getValue (locale, fallback = '')\<close> returns
  \<^verbatim>\<open>(this.locales[locale] && this.locales[locale].value) || fallback\<close>.
  The left operand of \<^verbatim>\<open>||\<close> is \<^verbatim>\<open>undefined\<close> (\<open>None\<close>) when the locale has no record
  and the record's value otherwise; a string is truthy exactly when it is not empty.
  (A name inherited from the object prototype has no \<^verbatim>\<open>value\<close> either, so it reads like
  a locale without a record.)
\<close>

definition js_and_value :: "LocaleRecord option \<Rightarrow> string option" where
  "js_and_value r = (case r of None \<Rightarrow> None | Some x \<Rightarrow> Some (rec_value x))"

definition js_or_string :: "string option \<Rightarrow> string \<Rightarrow> string" where
  "js_or_string lhs rhs = (case lhs of None \<Rightarrow> rhs | Some v \<Rightarrow> if v = [] then rhs else v)"

definition getValue :: "LocaleNode \<Rightarrow> string \<Rightarrow> string option \<Rightarrow> string" where
  "getValue n locale fallback =
     js_or_string (js_and_value (map_of (node_locales n) locale))
       (case fallback of None \<Rightarrow> [] | Some f \<Rightarrow> f)"

text \<open>The getter \<^verbatim>\<open>value\<close>, with the display language passed explicitly.\<close>

definition node_value :: "string \<Rightarrow> LocaleNode \<Rightarrow> string" where
  "node_value displayLanguage n = getValue n displayLanguage None"

text \<open>A record counts as a shadow record when its optional flag is set to true.\<close>

definition is_shadow :: "LocaleRecord \<Rightarrow> bool" where
  "is_shadow r = (rec_shadow r = Some True)"

text \<open>Removing a locale's entry from a locales object.\<close>

definition without_locale :: "string \<Rightarrow> LocaleNode \<Rightarrow> LocaleNode" where
  "without_locale l n = n\<lparr> node_locales := filter (\<lambda>p. fst p \<noteq> l) (node_locales n) \<rparr>"

section \<open>KeyPath utilities\<close>

text \<open>
  Modelled from the spec: the KeyPath utilities \<^verbatim>\<open>split\<close> and \<^verbatim>\<open>join\<close> (section 4.1),
  whose source is not among the files of the repository at hand. The spec fixes that
  \<^verbatim>\<open>split\<close> cuts at every unescaped separator, that a literal separator inside a segment
  is written with an escape, that a malformed escape sequence fails with a
  \<^verbatim>\<open>KeypathFormatError\<close>, and that \<^verbatim>\<open>join\<close> escapes the segments that contain the
  separator. It does not name the escape character, so separator and escape character
  are parameters here; the well-formed escape sequences are the escape character followed
  by the separator or by the escape character itself. The empty keypath has one segment,
  the empty string.
\<close>

datatype keypath_error = KeypathFormatError

fun push_char :: "char \<Rightarrow> string list \<Rightarrow> string list" where
  "push_char c [] = [[c]]"
| "push_char c (s # segs) = (c # s) # segs"

fun split :: "char \<Rightarrow> char \<Rightarrow> string \<Rightarrow> keypath_error + string list" where
  "split sep esc [] = Inr [[]]"
| "split sep esc [c] =
     (if c = esc then Inl KeypathFormatError
      else if c = sep then Inr [[], []]
      else Inr [[c]])"
| "split sep esc (c # d # cs) =
     (if c = esc then
        (if d = sep \<or> d = esc then
           (case split sep esc cs of
              Inl e \<Rightarrow> Inl e
            | Inr segs \<Rightarrow> Inr (push_char d segs))
         else Inl KeypathFormatError)
      else if c = sep then
        (case split sep esc (d # cs) of
           Inl e \<Rightarrow> Inl e
         | Inr segs \<Rightarrow> Inr ([] # segs))
      else
        (case split sep esc (d # cs) of
           Inl e \<Rightarrow> Inl e
         | Inr segs \<Rightarrow> Inr (push_char c segs)))"

fun escape_segment :: "char \<Rightarrow> char \<Rightarrow> string \<Rightarrow> string" where
  "escape_segment sep esc [] = []"
| "escape_segment sep esc (c # cs) =
     (if c = sep \<or> c = esc then esc # c # escape_segment sep esc cs
      else c # escape_segment sep esc cs)"

fun join :: "char \<Rightarrow> char \<Rightarrow> string list \<Rightarrow> string" where
  "join sep esc [] = []"
| "join sep esc [s] = escape_segment sep esc s"
| "join sep esc (s # t # ts) = escape_segment sep esc s @ sep # join sep esc (t # ts)"

section \<open>Flatten index and coverage\<close>

text \<open>
  \<^verbatim>\<open>FlattenLocaleTree extends Record<string, LocaleNode>\<close>: an association list from
  full keypath to node. Its keys are the distinct first components; \<open>map_of\<close> reads it.
\<close>

type_synonym FlattenLocaleTree = "(string \<times> LocaleNode) list"

definition flatten_keypaths :: "FlattenLocaleTree \<Rightarrow> string list" where
  "flatten_keypaths fl = remdups (map fst fl)"

record Coverage =
  cov_locale :: string
  cov_keys :: "string list"
  cov_translated :: nat
  cov_total :: nat

text \<open>Trimming removes the ASCII white space at both ends of a value.\<close>

definition is_space :: "char \<Rightarrow> bool" where
  "is_space c = (c = CHR '' '' \<or> c = CHR 0x09 \<or> c = CHR 0x0A \<or> c = CHR 0x0B
                 \<or> c = CHR 0x0C \<or> c = CHR 0x0D)"

definition trim :: "string \<Rightarrow> string" where
  "trim s = rev (dropWhile is_space (rev (dropWhile is_space s)))"

definition locale_record :: "FlattenLocaleTree \<Rightarrow> string \<Rightarrow> string \<Rightarrow> LocaleRecord option" where
  "locale_record fl locale k =
     (case map_of fl k of
        None \<Rightarrow> None
      | Some n \<Rightarrow> map_of (node_locales n) locale)"

text \<open>
  Modelled from the spec: the Coverage Calculator (section 4.4), whose source is not
  among the files. For a requested locale, \<^verbatim>\<open>keys\<close> are the keypaths of the index whose
  node carries a non-shadow record for the locale, \<^verbatim>\<open>translated\<close> counts those of them
  whose value is not empty after trimming, and \<^verbatim>\<open>total\<close> is the size of the index.
\<close>

definition has_real_record :: "FlattenLocaleTree \<Rightarrow> string \<Rightarrow> string \<Rightarrow> bool" where
  "has_real_record fl locale k =
     (case locale_record fl locale k of None \<Rightarrow> False | Some r \<Rightarrow> \<not> is_shadow r)"

definition is_translated :: "FlattenLocaleTree \<Rightarrow> string \<Rightarrow> string \<Rightarrow> bool" where
  "is_translated fl locale k =
     (case locale_record fl locale k of None \<Rightarrow> False | Some r \<Rightarrow> trim (rec_value r) \<noteq> [])"

definition coverage_of :: "FlattenLocaleTree \<Rightarrow> string \<Rightarrow> Coverage" where
  "coverage_of fl locale =
     (let keys = filter (has_real_record fl locale) (flatten_keypaths fl)
      in \<lparr> cov_locale = locale,
           cov_keys = keys,
           cov_translated = length (filter (is_translated fl locale) keys),
           cov_total = length (flatten_keypaths fl) \<rparr>)"

definition computeCoverage :: "FlattenLocaleTree \<Rightarrow> string list \<Rightarrow> Coverage list" where
  "computeCoverage fl locales = map (coverage_of fl) locales"

text \<open>
  A locale is absent from an index when no node of the index has a record of a real file
  for it: a node has no entry for the locale, or a shadow record.
\<close>

definition locale_absent :: "FlattenLocaleTree \<Rightarrow> string \<Rightarrow> bool" where
  "locale_absent fl locale =
     list_all (\<lambda>p. case map_of (node_locales (snd p)) locale of
                       None \<Rightarrow> True
                     | Some r \<Rightarrow> is_shadow r) fl"

section \<open>Pending write queue\<close>

record PendingWrite =
  pw_locale :: string
  pw_keypath :: string
  pw_filepath :: "string option"
  pw_value :: string

definition pw_key :: "PendingWrite \<Rightarrow> string \<times> string" where
  "pw_key w = (pw_locale w, pw_keypath w)"

text \<open>
  Modelled from the spec: the Pending Write Queue (section 4.6), whose source is not
  among the files (only the interface \<^verbatim>\<open>PendingWrite\<close> is). \<^verbatim>\<open>enqueue\<close> replaces any
  queued entry with the same locale and keypath; the new entry goes to the end of the
  queue. \<^verbatim>\<open>flush\<close> drains the whole queue, tries every entry against the persistence
  adapter (a parameter) and reports the outcome per entry.
\<close>

definition enqueue :: "PendingWrite \<Rightarrow> PendingWrite list \<Rightarrow> PendingWrite list" where
  "enqueue w q = filter (\<lambda>x. pw_key x \<noteq> pw_key w) q @ [w]"

fun enqueue_all :: "PendingWrite list \<Rightarrow> PendingWrite list \<Rightarrow> PendingWrite list" where
  "enqueue_all q [] = q"
| "enqueue_all q (w # ws) = enqueue_all (enqueue w q) ws"

datatype write_result = Written | WriteFailed string

definition flush ::
  "(PendingWrite \<Rightarrow> write_result) \<Rightarrow> PendingWrite list
     \<Rightarrow> (PendingWrite \<times> write_result) list \<times> PendingWrite list"
where
  "flush persist q = (map (\<lambda>w. (w, persist w)) q, [])"

definition persisted :: "(PendingWrite \<Rightarrow> write_result) \<Rightarrow> PendingWrite list \<Rightarrow> PendingWrite list" where
  "persisted persist q = map fst (filter (\<lambda>p. snd p = Written) (fst (flush persist q)))"

section \<open>Change detector\<close>

text \<open>
  \<^verbatim>\<open>LocaleLoaderEventType\<close>: the source lists \<^verbatim>\<open>'changed'\<close> first; the detector of the
  spec also reports added and removed keypaths.
\<close>

datatype LocaleLoaderEventType = Changed | Added | Removed

type_synonym change_event = "LocaleLoaderEventType \<times> string \<times> string option"

definition record_state :: "LocaleNode \<Rightarrow> string \<Rightarrow> (string \<times> bool) option" where
  "record_state n l =
     (case map_of (node_locales n) l of
        None \<Rightarrow> None
      | Some r \<Rightarrow> Some (rec_value r, is_shadow r))"

definition changed_locales :: "LocaleNode \<Rightarrow> LocaleNode \<Rightarrow> string list" where
  "changed_locales p n =
     filter (\<lambda>l. record_state p l \<noteq> record_state n l)
       (remdups (map fst (node_locales p) @ map fst (node_locales n)))"

text \<open>
  Modelled from the spec: the Change Detector (section 4.5), whose source is not among
  the files. Keypaths of \<^verbatim>\<open>previous\<close> are walked first: one missing from \<^verbatim>\<open>next\<close> is
  removed, one present in both gives a changed event for every locale whose value or
  shadow status differs; then the keypaths only in \<^verbatim>\<open>next\<close> are added.
\<close>

definition diff_keypath :: "FlattenLocaleTree \<Rightarrow> FlattenLocaleTree \<Rightarrow> string \<Rightarrow> change_event list" where
  "diff_keypath previous next k =
     (case map_of previous k of
        None \<Rightarrow> []
      | Some p \<Rightarrow>
          (case map_of next k of
             None \<Rightarrow> [(Removed, k, None)]
           | Some n \<Rightarrow> map (\<lambda>l. (Changed, k, Some l)) (changed_locales p n)))"

definition diff :: "FlattenLocaleTree \<Rightarrow> FlattenLocaleTree \<Rightarrow> change_event list" where
  "diff previous next =
     concat (map (diff_keypath previous next) (flatten_keypaths previous))
     @ map (\<lambda>k. (Added, k, None))
         (filter (\<lambda>k. map_of previous k = None) (flatten_keypaths next))"

section \<open>DeepL glossaries: the shared cache and the calls that use it\<close>

record DeeplGlossaryInfo =
  glossary_id :: string
  name :: string
  ready :: bool
  source_lang :: string
  target_lang :: string
  creation_time :: string
  entry_count :: int

text \<open>
  \<^verbatim>\<open>GlossaryInfoCache\<close>: both fields are optional and the static cache starts as \<^verbatim>\<open>{}\<close>.
  Time stamps are the integer milliseconds of \<^verbatim>\<open>Date.now()\<close>.
\<close>

record GlossaryInfoCache =
  lastUpdate :: "int option"
  glossaries :: "DeeplGlossaryInfo list option"

definition initial_cache :: GlossaryInfoCache where
  "initial_cache = \<lparr> lastUpdate = None, glossaries = None \<rparr>"

definition GLOSSARY_CACHE_TTL :: int where
  "GLOSSARY_CACHE_TTL = 60 * 1000"

text \<open>
  Errors the glossary code throws. \<open>RequestFailed\<close> is a rejection of the HTTP client;
  \<open>TypeError\<close> is what reading a property of \<^verbatim>\<open>undefined\<close> raises.
\<close>

datatype deepl_error =
    RequestFailed string
  | CanNotReadGlossaries
  | CouldntDeleteGlossary string int string string
  | EmptyGlossaryContent string string
  | CouldntCreateGlossary string string int string string
  | TypeError

datatype deepl_request =
    GetGlossaries
  | DeleteGlossary string
  | PostGlossary string string string

text \<open>
  What the outside world answers during one call: the two readings of the clock (in
  \<^verbatim>\<open>isCached\<close> and after the list has arrived) and the answer to each request. An answer
  is \<open>Inl\<close> when the awaited request throws; otherwise the glossary list of the body
  (\<open>None\<close> when the body has no \<^verbatim>\<open>glossaries\<close>), or the status with the body's
  \<^verbatim>\<open>message\<close> and \<^verbatim>\<open>detail\<close> (\<open>None\<close> when there is no body to read them from).
\<close>

record deepl_world =
  clock_check :: int
  clock_store :: int
  glossaries_response :: "deepl_error + DeeplGlossaryInfo list option"
  delete_response :: "string \<Rightarrow> deepl_error + int \<times> (string \<times> string) option"
  create_response :: "deepl_error + int \<times> (string \<times> string) option"

text \<open>\<^verbatim>\<open>!! (lastUpdate && Date.now() - lastUpdate < GLOSSARY_CACHE_TTL)\<close>\<close>

definition isCached :: "int \<Rightarrow> GlossaryInfoCache \<Rightarrow> bool" where
  "isCached now c =
     (case lastUpdate c of
        None \<Rightarrow> False
      | Some t \<Rightarrow> t \<noteq> 0 \<and> now - t < GLOSSARY_CACHE_TTL)"

definition invalidateCache :: "GlossaryInfoCache \<Rightarrow> GlossaryInfoCache" where
  "invalidateCache c = c\<lparr> lastUpdate := Some 0, glossaries := Some [] \<rparr>"

text \<open>
  \<^verbatim>\<open>readGlossaryList\<close> as in \<^verbatim>\<open>translators/engines/deepl.ts\<close> (no flag), and below it
  the variant with the \<^verbatim>\<open>forceUpdate\<close> flag. The result is what the call returns or
  throws, the cache afterwards and the requests it issued.
\<close>

definition fetch_glossary_list ::
  "deepl_world \<Rightarrow> GlossaryInfoCache
     \<Rightarrow> (deepl_error + DeeplGlossaryInfo list option) \<times> GlossaryInfoCache \<times> deepl_request list"
where
  "fetch_glossary_list w c =
     (case glossaries_response w of
        Inl err \<Rightarrow> (Inl err, c, [GetGlossaries])
      | Inr None \<Rightarrow> (Inl CanNotReadGlossaries, c, [GetGlossaries])
      | Inr (Some gs) \<Rightarrow>
          (Inr (Some gs),
           c\<lparr> lastUpdate := Some (clock_store w), glossaries := Some gs \<rparr>,
           [GetGlossaries]))"

definition readGlossaryList ::
  "deepl_world \<Rightarrow> GlossaryInfoCache
     \<Rightarrow> (deepl_error + DeeplGlossaryInfo list option) \<times> GlossaryInfoCache \<times> deepl_request list"
where
  "readGlossaryList w c =
     (if isCached (clock_check w) c then (Inr (glossaries c), c, [])
      else fetch_glossary_list w c)"

definition readGlossaryList_force ::
  "deepl_world \<Rightarrow> bool option \<Rightarrow> GlossaryInfoCache
     \<Rightarrow> (deepl_error + DeeplGlossaryInfo list option) \<times> GlossaryInfoCache \<times> deepl_request list"
where
  "readGlossaryList_force w forceUpdate c =
     (let force = (case forceUpdate of None \<Rightarrow> False | Some b \<Rightarrow> b)
      in if isCached (clock_check w) c \<and> \<not> force then (Inr (glossaries c), c, [])
         else fetch_glossary_list w c)"

text \<open>
  \<^verbatim>\<open>getGlossaryIds\<close>: filtering a list that is \<^verbatim>\<open>undefined\<close> raises a type error.
\<close>

definition getGlossaryIds ::
  "deepl_world \<Rightarrow> string \<Rightarrow> string \<Rightarrow> GlossaryInfoCache
     \<Rightarrow> (deepl_error + string list) \<times> GlossaryInfoCache \<times> deepl_request list"
where
  "getGlossaryIds w targetLanguage sourceLanguage c =
     (case readGlossaryList w c of
        (Inl err, c', rq) \<Rightarrow> (Inl err, c', rq)
      | (Inr None, c', rq) \<Rightarrow> (Inl TypeError, c', rq)
      | (Inr (Some gs), c', rq) \<Rightarrow>
          (Inr (map glossary_id
                  (filter (\<lambda>g. source_lang g = sourceLanguage \<and> target_lang g = targetLanguage) gs)),
           c', rq))"

definition getGlossaryId ::
  "deepl_world \<Rightarrow> string \<Rightarrow> string \<Rightarrow> GlossaryInfoCache
     \<Rightarrow> (deepl_error + string option) \<times> GlossaryInfoCache \<times> deepl_request list"
where
  "getGlossaryId w targetLanguage sourceLanguage c =
     (case getGlossaryIds w targetLanguage sourceLanguage c of
        (Inl err, c', rq) \<Rightarrow> (Inl err, c', rq)
      | (Inr ids, c', rq) \<Rightarrow>
          (Inr (case ids of [] \<Rightarrow> None | i # _ \<Rightarrow> Some i), c', rq))"

definition deleteGlossary :: "deepl_world \<Rightarrow> string \<Rightarrow> deepl_error + unit" where
  "deleteGlossary w i =
     (case delete_response w i of
        Inl err \<Rightarrow> Inl err
      | Inr (st, body) \<Rightarrow>
          if st = 204 then Inr ()
          else (case body of
                  None \<Rightarrow> Inl TypeError
                | Some (message, detail) \<Rightarrow> Inl (CouldntDeleteGlossary i st message detail)))"

definition createGlossary ::
  "deepl_world \<Rightarrow> string \<Rightarrow> string \<Rightarrow> string \<Rightarrow> (deepl_error + unit) \<times> deepl_request list"
where
  "createGlossary w targetLanguage sourceLanguage content =
     (if content = [] then (Inl (EmptyGlossaryContent sourceLanguage targetLanguage), [])
      else (case create_response w of
              Inl err \<Rightarrow> Inl err
            | Inr (st, body) \<Rightarrow>
                if st \<noteq> 201 then
                  (case body of
                     None \<Rightarrow> Inl TypeError
                   | Some (message, detail) \<Rightarrow>
                       Inl (CouldntCreateGlossary sourceLanguage targetLanguage st message detail))
                else Inr (),
            [PostGlossary sourceLanguage targetLanguage content]))"

text \<open>
  \<^verbatim>\<open>updateGlossary\<close>: the body of the \<^verbatim>\<open>try\<close>, then the \<^verbatim>\<open>finally\<close> block. The deletions
  run inside \<^verbatim>\<open>forEach(async ...)\<close>: each request is started, none is awaited, and a
  deletion that fails rejects a promise nobody holds, so its error (last component) never
  reaches the caller.
\<close>

definition updateGlossary_try ::
  "deepl_world \<Rightarrow> string \<Rightarrow> string \<Rightarrow> string \<Rightarrow> GlossaryInfoCache
     \<Rightarrow> (deepl_error + unit) \<times> GlossaryInfoCache \<times> deepl_request list \<times> (deepl_error + unit) list"
where
  "updateGlossary_try w targetLanguage sourceLanguage content c =
     (case getGlossaryIds w targetLanguage sourceLanguage c of
        (Inl err, c', rq) \<Rightarrow> (Inl err, c', rq, [])
      | (Inr ids, c', rq) \<Rightarrow>
          (case createGlossary w targetLanguage sourceLanguage content of
             (r, rq') \<Rightarrow>
               (r, c', rq @ map DeleteGlossary ids @ rq', map (deleteGlossary w) ids)))"

definition updateGlossary ::
  "deepl_world \<Rightarrow> string \<Rightarrow> string \<Rightarrow> string \<Rightarrow> GlossaryInfoCache
     \<Rightarrow> (deepl_error + unit) \<times> GlossaryInfoCache \<times> deepl_request list \<times> (deepl_error + unit) list"
where
  "updateGlossary w targetLanguage sourceLanguage content c =
     (case updateGlossary_try w targetLanguage sourceLanguage content c of
        (r, c', rq, dels) \<Rightarrow> (r, invalidateCache c', rq, dels))"

text \<open>
  \<^verbatim>\<open>TranslateOptions\<close> is declared in another module; the glossary code reads its
  \<^verbatim>\<open>from\<close> and \<^verbatim>\<open>to\<close>. \<^verbatim>\<open>Config.deeplGlossariesDir\<close> is passed as \<open>dir\<close>. A value is truthy
  when it is a string that is not empty.
\<close>

record TranslateOptions =
  opt_text :: string
  opt_from :: "string option"
  opt_to :: "string option"

definition truthy :: "string option \<Rightarrow> bool" where
  "truthy s = (case s of None \<Rightarrow> False | Some x \<Rightarrow> x \<noteq> [])"

definition isEnabled :: "string option \<Rightarrow> bool" where
  "isEnabled dir = truthy dir"

datatype glossary_partial = EmptyObject | GlossaryIdentifyingPartial string

text \<open>
  \<^verbatim>\<open>getTranslationRequestGlossaryIdentifier\<close>: the body of the \<^verbatim>\<open>try\<close> either returns a
  value (\<open>Inr (Some p)\<close>), falls out of the block (\<open>Inr None\<close>) or throws; the \<^verbatim>\<open>catch\<close>
  only logs, and after the block the function returns \<^verbatim>\<open>{}\<close>.
\<close>

definition glossaryIdentifier_try ::
  "string option \<Rightarrow> deepl_world \<Rightarrow> TranslateOptions \<Rightarrow> GlossaryInfoCache
     \<Rightarrow> (deepl_error + glossary_partial option) \<times> GlossaryInfoCache \<times> deepl_request list"
where
  "glossaryIdentifier_try dir w options c =
     (case (opt_from options, opt_to options) of
        (Some from, Some to) \<Rightarrow>
          if isEnabled dir \<and> from \<noteq> [] \<and> to \<noteq> [] then
            (case getGlossaryId w to from c of
               (Inl err, c', rq) \<Rightarrow> (Inl err, c', rq)
             | (Inr glossaryId, c', rq) \<Rightarrow>
                 (if truthy glossaryId
                  then (Inr (map_option GlossaryIdentifyingPartial glossaryId), c', rq)
                  else (Inr None, c', rq)))
          else (Inr None, c, [])
      | _ \<Rightarrow> (Inr None, c, []))"

definition getTranslationRequestGlossaryIdentifier ::
  "string option \<Rightarrow> deepl_world \<Rightarrow> TranslateOptions \<Rightarrow> GlossaryInfoCache
     \<Rightarrow> (deepl_error + glossary_partial) \<times> GlossaryInfoCache \<times> deepl_request list"
where
  "getTranslationRequestGlossaryIdentifier dir w options c =
     (case glossaryIdentifier_try dir w options c of
        (Inl err, c', rq) \<Rightarrow> (Inr EmptyObject, c', rq)
      | (Inr None, c', rq) \<Rightarrow> (Inr EmptyObject, c', rq)
      | (Inr (Some p), c', rq) \<Rightarrow> (Inr p, c', rq))"

section \<open>Tree builder and merge resolver\<close>

text \<open>
  \<^verbatim>\<open>ParsedFile\<close> as the source declares it; its raw \<^verbatim>\<open>value\<close> is a nested object of
  strings. \<^verbatim>\<open>LocaleTree\<close> is the tagged variant of the source: a child is a node (a
  leaf) or a tree with keypath, keyname and children.
\<close>

datatype raw_value = RawString string | RawObject "(string \<times> raw_value) list"

record ParsedFile =
  pf_filepath :: string
  pf_locale :: string
  pf_value :: raw_value
  pf_nested :: bool
  pf_flatten :: "(string \<times> string) list"

datatype LocaleTree = Leaf LocaleNode | Tree string string "(string \<times> LocaleTree) list"

datatype merge_warning =
    MergeConflictWarning string string "string list"
  | StructuralConflictWarning string
  | KeypathFormatWarning string

text \<open>
  Modelled from the spec: \<^verbatim>\<open>keyname\<close> (section 4.1), the last segment of a keypath, with
  the segments of a keypath that does not split taken as none.
\<close>

definition segments :: "char \<Rightarrow> char \<Rightarrow> string \<Rightarrow> string list" where
  "segments sep esc k = (case split sep esc k of Inl e \<Rightarrow> [] | Inr segs \<Rightarrow> segs)"

definition well_formed :: "char \<Rightarrow> char \<Rightarrow> string \<Rightarrow> bool" where
  "well_formed sep esc k = (case split sep esc k of Inl e \<Rightarrow> False | Inr segs \<Rightarrow> True)"

definition keyname :: "char \<Rightarrow> char \<Rightarrow> string \<Rightarrow> string" where
  "keyname sep esc k = (case rev (segments sep esc k) of [] \<Rightarrow> [] | s # _ \<Rightarrow> s)"

text \<open>
  Modelled from the spec: the Merge and Conflict Resolver (section 4.2), whose source is
  not among the files. The contenders for a locale and keypath are the files of that
  locale whose flatten map has the keypath. A \<^verbatim>\<open>ParsedFile\<close> carries neither scoping
  metadata nor a modification time, so the rule of the spec comes down to its last
  tie-break, the lexical order of the file paths: the files are given in that order and
  the last contender wins. Without a contender the record is a shadow record with the
  empty value and no file path. More than one contender is reported as a conflict note.
\<close>

definition contenders :: "ParsedFile list \<Rightarrow> string \<Rightarrow> string \<Rightarrow> ParsedFile list" where
  "contenders files locale k =
     filter (\<lambda>f. pf_locale f = locale \<and> map_of (pf_flatten f) k \<noteq> None) files"

definition resolve_record ::
  "char \<Rightarrow> char \<Rightarrow> ParsedFile list \<Rightarrow> string \<Rightarrow> string \<Rightarrow> LocaleRecord"
where
  "resolve_record sep esc files k locale =
     (case rev (contenders files locale k) of
        [] \<Rightarrow>
          \<lparr> rec_keypath = k, rec_keyname = keyname sep esc k, rec_value = [],
            rec_locale = locale, rec_filepath = None, rec_shadow = Some True \<rparr>
      | w # _ \<Rightarrow>
          \<lparr> rec_keypath = k, rec_keyname = keyname sep esc k,
            rec_value = (case map_of (pf_flatten w) k of None \<Rightarrow> [] | Some v \<Rightarrow> v),
            rec_locale = locale, rec_filepath = Some (pf_filepath w), rec_shadow = None \<rparr>)"

definition conflict_notes :: "ParsedFile list \<Rightarrow> string list \<Rightarrow> string \<Rightarrow> merge_warning list" where
  "conflict_notes files locales k =
     concat (map (\<lambda>l. if 1 < length (contenders files l k)
                       then [MergeConflictWarning l k (map pf_filepath (contenders files l k))]
                       else []) locales)"

text \<open>
  Modelled from the spec: the Tree Builder (section 4.3), whose source is not among the
  files. The keypaths are the union of the keypaths of all flatten maps; a keypath that
  does not split is skipped and reported, and a keypath that is a strict prefix of
  another one is dropped and reported, the deeper path staying. For each keypath that
  is kept the node is constructed from the resolved record of every locale, its shadow
  flag saying that all its records are shadow records, and inserted into the tree along
  its segments, interior trees being created on the way. The locales are those of the
  files and the locales the caller knows besides (section 8 has a locale with no file at
  all). The result is the tree, the flatten index and the warnings.
\<close>

definition all_keypaths :: "ParsedFile list \<Rightarrow> string list" where
  "all_keypaths files = remdups (concat (map (\<lambda>f. map fst (pf_flatten f)) files))"

definition is_strict_prefix :: "string list \<Rightarrow> string list \<Rightarrow> bool" where
  "is_strict_prefix xs ys = (length xs < length ys \<and> take (length xs) ys = xs)"

definition has_deeper :: "char \<Rightarrow> char \<Rightarrow> string list \<Rightarrow> string \<Rightarrow> bool" where
  "has_deeper sep esc ks k =
     list_ex (\<lambda>k'. is_strict_prefix (segments sep esc k) (segments sep esc k')) ks"

definition make_node ::
  "char \<Rightarrow> char \<Rightarrow> ParsedFile list \<Rightarrow> string list \<Rightarrow> string \<Rightarrow> LocaleNode"
where
  "make_node sep esc files locales k =
     (let records = map (\<lambda>l. (l, resolve_record sep esc files k l)) locales
      in LocaleNode_new (keyname sep esc) k (Some records)
           (Some (list_all (\<lambda>p. is_shadow (snd p)) records)))"

fun set_child ::
  "string \<Rightarrow> LocaleTree \<Rightarrow> (string \<times> LocaleTree) list \<Rightarrow> (string \<times> LocaleTree) list"
where
  "set_child s c [] = [(s, c)]"
| "set_child s c ((s', c') # rest) =
     (if s' = s then (s, c) # rest else (s', c') # set_child s c rest)"

definition subtree_children ::
  "(string \<times> LocaleTree) list \<Rightarrow> string \<Rightarrow> (string \<times> LocaleTree) list"
where
  "subtree_children cs s = (case map_of cs s of Some (Tree kp kn sub) \<Rightarrow> sub | _ \<Rightarrow> [])"

fun insert_node ::
  "char \<Rightarrow> char \<Rightarrow> string list \<Rightarrow> string list \<Rightarrow> LocaleNode
     \<Rightarrow> (string \<times> LocaleTree) list \<Rightarrow> (string \<times> LocaleTree) list"
where
  "insert_node sep esc pre [] n cs = cs"
| "insert_node sep esc pre [s] n cs = set_child s (Leaf n) cs"
| "insert_node sep esc pre (s # t # ts) n cs =
     set_child s
       (Tree (join sep esc (pre @ [s])) s
          (insert_node sep esc (pre @ [s]) (t # ts) n (subtree_children cs s)))
       cs"

definition build_tree :: "char \<Rightarrow> char \<Rightarrow> FlattenLocaleTree \<Rightarrow> LocaleTree" where
  "build_tree sep esc fl =
     Tree [] []
       (foldl (\<lambda>cs p. insert_node sep esc [] (segments sep esc (fst p)) (snd p) cs) [] fl)"

definition build ::
  "char \<Rightarrow> char \<Rightarrow> string list \<Rightarrow> ParsedFile list
     \<Rightarrow> LocaleTree \<times> FlattenLocaleTree \<times> merge_warning list"
where
  "build sep esc known_locales parsedFiles =
     (let files = sort_key pf_filepath parsedFiles;
          locales = remdups (known_locales @ map pf_locale files);
          found = all_keypaths files;
          valid = filter (well_formed sep esc) found;
          kept = filter (\<lambda>k. \<not> has_deeper sep esc valid k) valid;
          fl = map (\<lambda>k. (k, make_node sep esc files locales k)) kept
      in (build_tree sep esc fl, fl,
          map KeypathFormatWarning (filter (\<lambda>k. \<not> well_formed sep esc k) found)
          @ map StructuralConflictWarning (filter (has_deeper sep esc valid) valid)
          @ concat (map (conflict_notes files locales) kept)))"



section \<open>Examples\<close>

text \<open>
  The index of the two files \<^verbatim>\<open>en.json = {a:{b:"hi"}}\<close> and \<^verbatim>\<open>fr.json = {a:{b:""}}\<close>:
  one keypath with a record for each of the two locales.
\<close>

definition example_flatten :: FlattenLocaleTree where
  "example_flatten =
     [(''a.b'', \<lparr> node_keyname = ''b'', node_keypath = ''a.b'',
        node_locales =
          [(''en'', \<lparr> rec_keypath = ''a.b'', rec_keyname = ''b'', rec_value = ''hi'',
                       rec_locale = ''en'', rec_filepath = Some ''en.json'', rec_shadow = None \<rparr>),
           (''fr'', \<lparr> rec_keypath = ''a.b'', rec_keyname = ''b'', rec_value = [],
                       rec_locale = ''fr'', rec_filepath = Some ''fr.json'', rec_shadow = None \<rparr>)],
        node_shadow = False \<rparr>)]"

text \<open>
  Two answers of the outside world, for one translation request from English to German:
  in the first the list of glossaries cannot be read, in the second the server holds one
  glossary for the language pair.
\<close>

definition example_world_failing :: deepl_world where
  "example_world_failing =
     \<lparr> clock_check = 5000, clock_store = 5100,
       glossaries_response = Inl (RequestFailed ''timeout''),
       delete_response = (\<lambda>i. Inr (204, None)),
       create_response = Inr (201, None) \<rparr>"

definition example_world :: deepl_world where
  "example_world =
     \<lparr> clock_check = 5000, clock_store = 5100,
       glossaries_response =
         Inr (Some [\<lparr> glossary_id = ''g1'', name = ''en-de'', ready = True,
                      source_lang = ''en'', target_lang = ''de'',
                      creation_time = ''2024-01-01'', entry_count = 3 \<rparr>]),
       delete_response = (\<lambda>i. Inr (204, None)),
       create_response = Inr (201, None) \<rparr>"

definition example_options :: TranslateOptions where
  "example_options = \<lparr> opt_text = ''hello'', opt_from = Some ''en'', opt_to = Some ''de'' \<rparr>"

text \<open>
  The two files themselves, the node their build gives for \<open>a.b\<close> when the caller
  also knows the locale \<open>de\<close>, which has no file, and a node for a second keypath.
\<close>

definition en_file :: ParsedFile where
  "en_file =
     \<lparr> pf_filepath = ''en.json'', pf_locale = ''en'',
       pf_value = RawObject [(''a'', RawObject [(''b'', RawString ''hi'')])],
       pf_nested = True, pf_flatten = [(''a.b'', ''hi'')] \<rparr>"

definition fr_file :: ParsedFile where
  "fr_file =
     \<lparr> pf_filepath = ''fr.json'', pf_locale = ''fr'',
       pf_value = RawObject [(''a'', RawObject [(''b'', RawString [])])],
       pf_nested = True, pf_flatten = [(''a.b'', [])] \<rparr>"

definition example_node :: LocaleNode where
  "example_node =
     \<lparr> node_keyname = ''b'', node_keypath = ''a.b'',
       node_locales =
         [(''de'', \<lparr> rec_keypath = ''a.b'', rec_keyname = ''b'', rec_value = [],
                      rec_locale = ''de'', rec_filepath = None, rec_shadow = Some True \<rparr>),
          (''en'', \<lparr> rec_keypath = ''a.b'', rec_keyname = ''b'', rec_value = ''hi'',
                      rec_locale = ''en'', rec_filepath = Some ''en.json'', rec_shadow = None \<rparr>),
          (''fr'', \<lparr> rec_keypath = ''a.b'', rec_keyname = ''b'', rec_value = [],
                      rec_locale = ''fr'', rec_filepath = Some ''fr.json'', rec_shadow = None \<rparr>)],
       node_shadow = False \<rparr>"

definition example_node_c :: LocaleNode where
  "example_node_c =
     \<lparr> node_keyname = ''c'', node_keypath = ''c'',
       node_locales =
         [(''en'', \<lparr> rec_keypath = ''c'', rec_keyname = ''c'', rec_value = ''yo'',
                      rec_locale = ''en'', rec_filepath = Some ''en.json'', rec_shadow = None \<rparr>)],
       node_shadow = False \<rparr>"

section \<open>The value accessor\<close>

lemma map_of_without_locale: "map_of (node_locales (without_locale l n)) l = None"
  by (auto simp add: without_locale_def map_of_eq_None_iff)

text \<open>
  C1 (as amended). \<^verbatim>\<open>getValue\<close> returns the record's value when the locale has a record
  whose value is not the empty string, and the fallback in every other case; an omitted
  fallback is the empty string.
\<close>

theorem getValue_nonempty_or_fallback:
  "getValue n l f =
     (if (\<exists>r. map_of (node_locales n) l = Some r \<and> rec_value r \<noteq> [])
      then rec_value (the (map_of (node_locales n) l))
      else (case f of None \<Rightarrow> [] | Some d \<Rightarrow> d))"
  by (cases "map_of (node_locales n) l")
     (simp_all add: getValue_def js_or_string_def js_and_value_def)

text \<open>
  C1 as stated fails: a record with the empty value and the fallback \<open>''x''\<close> gives the
  fallback, not the record's value.
\<close>

theorem getValue_record_value_counterexample:
  "map_of (node_locales (LocaleNode_new (\<lambda>k. k) ''a.b''
      (Some [(''fr'', \<lparr> rec_keypath = ''a.b'', rec_keyname = ''b'', rec_value = '''',
                       rec_locale = ''fr'', rec_filepath = Some ''fr.json'',
                       rec_shadow = None \<rparr>)]) None)) ''fr''
     = Some \<lparr> rec_keypath = ''a.b'', rec_keyname = ''b'', rec_value = '''',
              rec_locale = ''fr'', rec_filepath = Some ''fr.json'', rec_shadow = None \<rparr>
   \<and> getValue (LocaleNode_new (\<lambda>k. k) ''a.b''
      (Some [(''fr'', \<lparr> rec_keypath = ''a.b'', rec_keyname = ''b'', rec_value = '''',
                       rec_locale = ''fr'', rec_filepath = Some ''fr.json'',
                       rec_shadow = None \<rparr>)]) None) ''fr'' (Some ''x'') = ''x''
   \<and> ''x'' \<noteq> rec_value \<lparr> rec_keypath = ''a.b'', rec_keyname = ''b'', rec_value = '''',
              rec_locale = ''fr'', rec_filepath = Some ''fr.json'', rec_shadow = None \<rparr>"
  by (simp add: getValue_def js_or_string_def js_and_value_def LocaleNode_new_def)

text \<open>
  C2. When the locale's record has the empty string as its value and the fallback is not
  empty, \<^verbatim>\<open>getValue\<close> returns the fallback, which is not the empty string, and the result
  is the same as for the node with that locale's entry removed.
\<close>

theorem getValue_empty_value_is_fallback:
  assumes "map_of (node_locales n) l = Some r" and "rec_value r = []" and "f \<noteq> []"
  shows "getValue n l (Some f) = f \<and> getValue n l (Some f) \<noteq> []
         \<and> getValue n l (Some f) = getValue (without_locale l n) l (Some f)"
  using assms
  by (simp add: getValue_def js_or_string_def js_and_value_def map_of_without_locale)

theorem getValue_empty_value_is_fallback_witness:
  "getValue \<lparr> node_keyname = ''b'', node_keypath = ''a.b'',
       node_locales = [(''fr'', \<lparr> rec_keypath = ''a.b'', rec_keyname = ''b'', rec_value = '''',
                                  rec_locale = ''fr'', rec_filepath = None, rec_shadow = None \<rparr>)],
       node_shadow = False \<rparr> ''fr'' (Some ''hi'') = ''hi''"
  using getValue_empty_value_is_fallback
    [of "\<lparr> node_keyname = ''b'', node_keypath = ''a.b'',
       node_locales = [(''fr'', \<lparr> rec_keypath = ''a.b'', rec_keyname = ''b'', rec_value = '''',
                                  rec_locale = ''fr'', rec_filepath = None, rec_shadow = None \<rparr>)],
       node_shadow = False \<rparr>" "''fr''"
       "\<lparr> rec_keypath = ''a.b'', rec_keyname = ''b'', rec_value = '''',
                                  rec_locale = ''fr'', rec_filepath = None, rec_shadow = None \<rparr>"
       "''hi''"]
  by simp

section \<open>Round trip of keypaths\<close>

lemma split_nonempty: "split sep esc k = Inr segs \<Longrightarrow> segs \<noteq> []"
  by (induction sep esc k arbitrary: segs rule: split.induct)
     (auto split: if_splits sum.splits simp: neq_Nil_conv elim: push_char.elims)

lemma join_cons_char:
  "join sep esc ((c # s) # rest) = escape_segment sep esc [c] @ join sep esc (s # rest)"
  by (cases rest) auto

lemma join_push_char:
  "segs \<noteq> [] \<Longrightarrow>
     join sep esc (push_char c segs) = escape_segment sep esc [c] @ join sep esc segs"
  by (cases segs) (simp_all add: join_cons_char del: escape_segment.simps)

lemma join_new_segment:
  "segs \<noteq> [] \<Longrightarrow> join sep esc ([] # segs) = sep # join sep esc segs"
  by (cases segs) auto

text \<open>
  C3. For every keypath \<open>k\<close> that \<^verbatim>\<open>split\<close> accepts (no malformed escape), joining the
  segments of \<open>k\<close> gives \<open>k\<close> back, also when a segment contains an escaped separator.
\<close>

theorem join_split: "split sep esc k = Inr segs \<Longrightarrow> join sep esc segs = k"
proof (induction sep esc k arbitrary: segs rule: split.induct)
  case (1 sep esc)
  then show ?case by auto
next
  case (2 sep esc c)
  then show ?case by (auto split: if_splits)
next
  case (3 sep esc c d cs)
  then show ?case
    by (auto split: if_splits sum.splits simp: join_push_char join_new_segment
             dest: split_nonempty)
qed

theorem join_split_witness:
  "split (CHR ''.'') (CHR 0x5C) (''a'' @ [CHR 0x5C] @ ''.b.c'') = Inr [''a.b'', ''c'']
   \<and> join (CHR ''.'') (CHR 0x5C) [''a.b'', ''c''] = ''a'' @ [CHR 0x5C] @ ''.b.c''"
  using join_split [of "CHR ''.''" "CHR 0x5C" "''a'' @ [CHR 0x5C] @ ''.b.c''" "[''a.b'', ''c'']"]
  by simp

text \<open>
  The other direction, for the model's own sake: with distinct separator and escape
  character, splitting a joined list of segments gives the segments back.
\<close>

lemma split_escape_append:
  assumes "sep \<noteq> esc" and "r = [] \<or> hd r = sep"
  shows "split sep esc (escape_segment sep esc s @ r) =
     (case split sep esc r of
        Inl e \<Rightarrow> Inl e
      | Inr segs \<Rightarrow> Inr ((s @ hd segs) # tl segs))"
  using assms
proof (induction s)
  case Nil
  then show ?case
    by (cases "split sep esc r") (auto dest: split_nonempty)
next
  case (Cons c cs)
  show ?case
  proof (cases "c = sep \<or> c = esc")
    case True
    then show ?thesis using Cons
      by (cases "split sep esc r") (auto dest: split_nonempty simp: neq_Nil_conv)
  next
    case False
    show ?thesis
    proof (cases "escape_segment sep esc cs @ r")
      case Nil
      then have "cs = []" "r = []" by (cases cs; auto split: if_splits)+
      with False show ?thesis by simp
    next
      case (Cons d ds)
      have "split sep esc (escape_segment sep esc (c # cs) @ r) =
              (case split sep esc (d # ds) of Inl e \<Rightarrow> Inl e | Inr segs \<Rightarrow> Inr (push_char c segs))"
        using False Cons by simp
      then show ?thesis using Cons.IH Cons.prems Cons
        by (cases "split sep esc r") (auto dest: split_nonempty simp: neq_Nil_conv)
    qed
  qed
qed

lemma split_join:
  "sep \<noteq> esc \<Longrightarrow> segs \<noteq> [] \<Longrightarrow> split sep esc (join sep esc segs) = Inr segs"
proof (induction sep esc segs rule: join.induct)
  case (1 sep esc)
  then show ?case by simp
next
  case (2 sep esc s)
  then show ?case using split_escape_append [of sep esc "[]" s] by simp
next
  case (3 sep esc s t ts)
  have "split sep esc (sep # join sep esc (t # ts)) = Inr ([] # t # ts)"
    using 3 by (cases "join sep esc (t # ts)") auto
  then show ?case
    using 3 split_escape_append [of sep esc "sep # join sep esc (t # ts)" s] by simp
qed

section \<open>Coverage\<close>

lemma flatten_keypaths_card: "length (flatten_keypaths fl) = card (dom (map_of fl))"
  by (simp add: flatten_keypaths_def length_remdups_card_conv dom_map_of_conv_image_fst)

lemma absent_no_real_record:
  assumes "locale_absent fl l"
  shows "\<not> has_real_record fl l k"
proof (cases "map_of fl k")
  case None
  then show ?thesis by (simp add: has_real_record_def locale_record_def)
next
  case (Some n)
  then have "(k, n) \<in> set fl" by (rule map_of_SomeD)
  with assms have "case map_of (node_locales n) l of None \<Rightarrow> True | Some r \<Rightarrow> is_shadow r"
    by (auto simp: locale_absent_def list_all_iff)
  with Some show ?thesis
    by (simp add: has_real_record_def locale_record_def split: option.splits)
qed

lemma coverage_of_translated_le:
  "cov_translated (coverage_of fl l) \<le> cov_total (coverage_of fl l)"
proof -
  have "length (filter (is_translated fl l) (filter (has_real_record fl l) (flatten_keypaths fl)))
        \<le> length (filter (has_real_record fl l) (flatten_keypaths fl))"
    by (rule length_filter_le)
  also have "\<dots> \<le> length (flatten_keypaths fl)"
    by (rule length_filter_le)
  finally show ?thesis by (simp add: coverage_of_def Let_def)
qed

lemma coverage_of_total: "cov_total (coverage_of fl l) = card (dom (map_of fl))"
  by (simp add: coverage_of_def Let_def flatten_keypaths_card)

lemma coverage_of_absent:
  "locale_absent fl l \<Longrightarrow>
     coverage_of fl l = \<lparr> cov_locale = l, cov_keys = [], cov_translated = 0,
                          cov_total = card (dom (map_of fl)) \<rparr>"
  by (simp add: coverage_of_def Let_def absent_no_real_record flatten_keypaths_card)

lemma coverage_of_locale: "cov_locale (coverage_of fl l) = l"
  by (simp add: coverage_of_def Let_def)

text \<open>
  C4. In the report of \<^verbatim>\<open>computeCoverage\<close>, which has one record per requested locale,
  every record has \<open>0 \<le> translated \<le> total\<close>, its \<open>total\<close> is the number of keypaths
  of the flatten index and so the same in all records of the report, and the record of a
  locale that has no entry in any node (or shadow records only) is \<open>translated = 0\<close>,
  \<open>total\<close> the size of the index, \<open>keys = []\<close>.
\<close>

theorem computeCoverage_counts:
  "(\<forall>c \<in> set (computeCoverage fl ls).
       0 \<le> cov_translated c \<and> cov_translated c \<le> cov_total c
       \<and> cov_total c = card (dom (map_of fl))
       \<and> (\<forall>c' \<in> set (computeCoverage fl ls). cov_total c' = cov_total c)
       \<and> (locale_absent fl (cov_locale c) \<longrightarrow>
            c = \<lparr> cov_locale = cov_locale c, cov_keys = [], cov_translated = 0,
                  cov_total = card (dom (map_of fl)) \<rparr>))
   \<and> map cov_locale (computeCoverage fl ls) = ls"
proof -
  have "map cov_locale (computeCoverage fl ls) = ls"
    by (induction ls) (simp_all add: computeCoverage_def coverage_of_locale)
  moreover have "\<And>c. c \<in> set (computeCoverage fl ls) \<Longrightarrow> \<exists>l. c = coverage_of fl l"
    by (auto simp: computeCoverage_def)
  ultimately show ?thesis
    using coverage_of_translated_le coverage_of_total coverage_of_absent coverage_of_locale
    by (metis (no_types, lifting) le0)
qed

theorem computeCoverage_counts_witness:
  "computeCoverage example_flatten [''en'', ''fr'', ''de''] =
     [\<lparr> cov_locale = ''en'', cov_keys = [''a.b''], cov_translated = 1, cov_total = 1 \<rparr>,
      \<lparr> cov_locale = ''fr'', cov_keys = [''a.b''], cov_translated = 0, cov_total = 1 \<rparr>,
      \<lparr> cov_locale = ''de'', cov_keys = [], cov_translated = 0, cov_total = 1 \<rparr>]
   \<and> locale_absent example_flatten ''de''
   \<and> card (dom (map_of example_flatten)) = 1"
  using computeCoverage_counts [of example_flatten "[''en'', ''fr'', ''de'']"]
  by (simp add: computeCoverage_def coverage_of_def Let_def flatten_keypaths_def
        has_real_record_def is_translated_def locale_record_def is_shadow_def trim_def
        is_space_def locale_absent_def example_flatten_def)

section \<open>Pending write queue\<close>

lemma enqueue_distinct: "distinct (map pw_key q) \<Longrightarrow> distinct (map pw_key (enqueue w q))"
  by (auto simp: enqueue_def distinct_map_filter)

lemma enqueue_all_distinct:
  "distinct (map pw_key q) \<Longrightarrow> distinct (map pw_key (enqueue_all q ws))"
  by (induction ws arbitrary: q) (simp_all add: enqueue_distinct)

lemma enqueue_same_key: "filter (\<lambda>x. pw_key x = pw_key w) (enqueue w q) = [w]"
  by (induction q) (auto simp: enqueue_def)

lemma enqueue_other_key:
  "k \<noteq> pw_key w \<Longrightarrow> filter (\<lambda>x. pw_key x = k) (enqueue w q) = filter (\<lambda>x. pw_key x = k) q"
  by (induction q) (auto simp: enqueue_def)

lemma enqueue_all_snoc: "enqueue_all q (ws @ [w]) = enqueue w (enqueue_all q ws)"
  by (induction ws arbitrary: q) simp_all

lemma enqueue_all_key:
  "filter (\<lambda>x. pw_key x = k) (enqueue_all [] ws) =
     (if filter (\<lambda>x. pw_key x = k) ws = [] then []
      else [last (filter (\<lambda>x. pw_key x = k) ws)])"
proof (induction ws rule: rev_induct)
  case Nil
  then show ?case by simp
next
  case (snoc w ws)
  show ?case
  proof (cases "k = pw_key w")
    case True
    then show ?thesis
      by (simp add: enqueue_all_snoc enqueue_same_key)
  next
    case False
    then show ?thesis
      using snoc by (simp add: enqueue_all_snoc enqueue_other_key)
  qed
qed

text \<open>
  C5. After any sequence of enqueue operations on an empty queue no two queued entries
  have the same (locale, keypath); the queue holds, for each pair that was written, only
  the last write for it; an enqueued write is the only entry of its pair. Enqueuing
  \<open>''v1''\<close> and then \<open>''v2''\<close> for (en, a.b) and flushing tries one write, the one with
  \<open>''v2''\<close>, and that is the one write persisted when the adapter succeeds.
\<close>

theorem enqueue_last_writer_wins:
  "distinct (map pw_key (enqueue_all [] ws))
   \<and> filter (\<lambda>x. pw_key x = k) (enqueue_all [] ws) =
       (if filter (\<lambda>x. pw_key x = k) ws = [] then []
        else [last (filter (\<lambda>x. pw_key x = k) ws)])
   \<and> filter (\<lambda>x. pw_key x = pw_key w) (enqueue w q) = [w]
   \<and> fst (flush persist
        (enqueue \<lparr> pw_locale = ''en'', pw_keypath = ''a.b'', pw_filepath = f2, pw_value = ''v2'' \<rparr>
          (enqueue \<lparr> pw_locale = ''en'', pw_keypath = ''a.b'', pw_filepath = f1, pw_value = ''v1'' \<rparr> [])))
       = [(\<lparr> pw_locale = ''en'', pw_keypath = ''a.b'', pw_filepath = f2, pw_value = ''v2'' \<rparr>,
           persist \<lparr> pw_locale = ''en'', pw_keypath = ''a.b'', pw_filepath = f2, pw_value = ''v2'' \<rparr>)]
   \<and> persisted (\<lambda>w. Written)
        (enqueue \<lparr> pw_locale = ''en'', pw_keypath = ''a.b'', pw_filepath = f2, pw_value = ''v2'' \<rparr>
          (enqueue \<lparr> pw_locale = ''en'', pw_keypath = ''a.b'', pw_filepath = f1, pw_value = ''v1'' \<rparr> []))
       = [\<lparr> pw_locale = ''en'', pw_keypath = ''a.b'', pw_filepath = f2, pw_value = ''v2'' \<rparr>]"
proof -
  have d: "distinct (map pw_key (enqueue_all [] ws))"
    by (rule enqueue_all_distinct) simp
  have two: "enqueue \<lparr> pw_locale = ''en'', pw_keypath = ''a.b'', pw_filepath = f2, pw_value = ''v2'' \<rparr>
          (enqueue \<lparr> pw_locale = ''en'', pw_keypath = ''a.b'', pw_filepath = f1, pw_value = ''v1'' \<rparr> [])
        = [\<lparr> pw_locale = ''en'', pw_keypath = ''a.b'', pw_filepath = f2, pw_value = ''v2'' \<rparr>]"
    by (simp add: enqueue_def pw_key_def)
  show ?thesis
    unfolding two
    by (simp add: d enqueue_all_key enqueue_same_key flush_def persisted_def)
qed

section \<open>The builder\<close>

lemma sort_key_same_set:
  assumes "set fs' = set fs"
    and "distinct (map pf_filepath fs)" and "distinct (map pf_filepath fs')"
  shows "sort_key pf_filepath fs' = sort_key pf_filepath fs"
proof -
  have inj: "inj_on pf_filepath (set fs)"
    using assms(2) by (simp add: distinct_map)
  have "map pf_filepath (sort_key pf_filepath fs') = map pf_filepath (sort_key pf_filepath fs)"
  proof (rule sorted_distinct_set_unique)
    show "sorted (map pf_filepath (sort_key pf_filepath fs'))" by (rule sorted_sort_key)
    show "sorted (map pf_filepath (sort_key pf_filepath fs))" by (rule sorted_sort_key)
    show "distinct (map pf_filepath (sort_key pf_filepath fs'))"
      using assms(3) by (simp add: distinct_map)
    show "distinct (map pf_filepath (sort_key pf_filepath fs))"
      using assms(2) by (simp add: distinct_map)
    show "set (map pf_filepath (sort_key pf_filepath fs'))
            = set (map pf_filepath (sort_key pf_filepath fs))"
      using assms(1) by simp
  qed
  then show ?thesis
    by (rule map_inj_on) (simp add: assms(1) inj)
qed

lemma build_same_set:
  assumes "set fs' = set fs"
    and "distinct (map pf_filepath fs)" and "distinct (map pf_filepath fs')"
  shows "build sep esc ls fs' = build sep esc ls fs"
  unfolding build_def sort_key_same_set [OF assms] ..













section \<open>Change detector\<close>

lemma changed_locales_same: "changed_locales n n = []"
  by (simp add: changed_locales_def)

lemma diff_keypath_same: "diff_keypath fl fl k = []"
  by (simp add: diff_keypath_def changed_locales_same split: option.splits)

lemma no_added_same: "filter (\<lambda>k. map_of fl k = None) (flatten_keypaths fl) = []"
  by (auto simp: flatten_keypaths_def filter_empty_conv map_of_eq_None_iff)

lemma diff_same: "diff fl fl = []"
  by (simp add: diff_def diff_keypath_same no_added_same)

lemma diff_map_eq:
  assumes "map_of p = map_of n"
  shows "diff p n = []"
proof -
  have k: "diff_keypath p n k = []" for k
    using assms by (simp add: diff_keypath_def changed_locales_def split: option.splits)
  have "set (flatten_keypaths n) = dom (map_of p)"
    using assms by (simp add: flatten_keypaths_def dom_map_of_conv_image_fst)
  then have "filter (\<lambda>k. map_of p k = None) (flatten_keypaths n) = []"
    by (auto simp: filter_empty_conv)
  then show ?thesis by (simp add: diff_def k)
qed

text \<open>
  C6. The diff of a flatten index against an equal index is the empty list of events,
  also when the two indices are equal only as maps from keypath to node. Building the
  same file set twice, the files given in any order, yields the same tree, index and
  warnings, and the diff of the two indices is empty. (A file set has one file per file
  path.)
\<close>

theorem diff_unchanged:
  "diff fl fl = []
   \<and> (map_of p = map_of n \<longrightarrow> diff p n = [])
   \<and> (set fs' = set fs \<and> distinct (map pf_filepath fs) \<and> distinct (map pf_filepath fs') \<longrightarrow>
        build sep esc ls fs' = build sep esc ls fs
        \<and> diff (fst (snd (build sep esc ls fs))) (fst (snd (build sep esc ls fs'))) = [])"
proof -
  have "build sep esc ls fs' = build sep esc ls fs
        \<and> diff (fst (snd (build sep esc ls fs))) (fst (snd (build sep esc ls fs'))) = []"
    if "set fs' = set fs" and "distinct (map pf_filepath fs)"
      and "distinct (map pf_filepath fs')"
  proof -
    have "build sep esc ls fs' = build sep esc ls fs"
      using that by (rule build_same_set)
    then show ?thesis by (simp add: diff_same)
  qed
  then show ?thesis
    using diff_same [of fl] diff_map_eq [of p n] by blast
qed

theorem diff_unchanged_witness:
  "set [fr_file, en_file] = set [en_file, fr_file]
   \<and> distinct (map pf_filepath [en_file, fr_file])
   \<and> distinct (map pf_filepath [fr_file, en_file])
   \<and> map_of [(''c'', example_node_c), (''a.b'', example_node)]
       = map_of [(''a.b'', example_node), (''c'', example_node_c)]
   \<and> diff [(''c'', example_node_c), (''a.b'', example_node)]
          [(''a.b'', example_node), (''c'', example_node_c)] = []
   \<and> fst (snd (build (CHR ''.'') (CHR 0x5C) [] [en_file, fr_file])) = example_flatten
   \<and> build (CHR ''.'') (CHR 0x5C) [] [fr_file, en_file]
       = build (CHR ''.'') (CHR 0x5C) [] [en_file, fr_file]
   \<and> diff (fst (snd (build (CHR ''.'') (CHR 0x5C) [] [en_file, fr_file])))
          (fst (snd (build (CHR ''.'') (CHR 0x5C) [] [fr_file, en_file]))) = []"
proof -
  have files: "set [fr_file, en_file] = set [en_file, fr_file]
      \<and> distinct (map pf_filepath [en_file, fr_file])
      \<and> distinct (map pf_filepath [fr_file, en_file])"
    by (auto simp: en_file_def fr_file_def)
  have maps: "map_of [(''c'', example_node_c), (''a.b'', example_node)]
       = map_of [(''a.b'', example_node), (''c'', example_node_c)]"
    by (rule ext) simp
  have index: "fst (snd (build (CHR ''.'') (CHR 0x5C) [] [en_file, fr_file])) = example_flatten"
    by code_simp
  show ?thesis
    using files maps index
      diff_unchanged [where p = "[(''c'', example_node_c), (''a.b'', example_node)]"
        and n = "[(''a.b'', example_node), (''c'', example_node_c)]"
        and fs = "[en_file, fr_file]" and fs' = "[fr_file, en_file]"
        and sep = "CHR ''.''" and esc = "CHR 0x5C" and ls = "[]" and fl = example_flatten]
    by blast
qed

section \<open>The shadow flag of a node\<close>



section \<open>The glossary cache\<close>

lemma fetch_requests: "snd (snd (fetch_glossary_list w c)) = [GetGlossaries]"
  by (simp add: fetch_glossary_list_def split: sum.splits option.splits)

lemma isCached_invalidate: "\<not> isCached now (invalidateCache c)"
  by (simp add: isCached_def invalidateCache_def)

lemma readGlossaryList_cached:
  "isCached (clock_check w) c \<Longrightarrow> readGlossaryList w c = (Inr (glossaries c), c, [])"
  by (simp add: readGlossaryList_def)

lemma readGlossaryList_stale:
  "\<not> isCached (clock_check w) c \<Longrightarrow> readGlossaryList w c = fetch_glossary_list w c"
  by (simp add: readGlossaryList_def)

lemma isCached_boundary:
  "isCached 60999 \<lparr> lastUpdate = Some 1000, glossaries = Some [] \<rparr>
   \<and> \<not> isCached 61000 \<lparr> lastUpdate = Some 1000, glossaries = Some [] \<rparr>
   \<and> \<not> isCached 5 initial_cache"
  by (simp add: isCached_def GLOSSARY_CACHE_TTL_def initial_cache_def)

text \<open>
  C8. The cache is fresh at \<open>now\<close> exactly when a nonzero \<open>lastUpdate\<close> is recorded and
  \<open>now - lastUpdate < 60000\<close>. \<^verbatim>\<open>readGlossaryList\<close> returns the cached list, leaves the
  cache as it is and issues no request exactly when the cache is fresh (and, in the
  variant with the flag, \<^verbatim>\<open>forceUpdate\<close> is not true); it issues no request in no other
  case. After \<^verbatim>\<open>invalidateCache\<close> the cache is not fresh at any time.
\<close>

theorem glossary_cache_fresh:
  "(isCached now c \<longleftrightarrow> (\<exists>t. lastUpdate c = Some t \<and> t \<noteq> 0 \<and> now - t < 60000))
   \<and> (readGlossaryList w c = (Inr (glossaries c), c, []) \<longleftrightarrow> isCached (clock_check w) c)
   \<and> (snd (snd (readGlossaryList w c)) = [] \<longleftrightarrow> isCached (clock_check w) c)
   \<and> (readGlossaryList_force w f c = (Inr (glossaries c), c, [])
        \<longleftrightarrow> isCached (clock_check w) c \<and> f \<noteq> Some True)
   \<and> (snd (snd (readGlossaryList_force w f c)) = []
        \<longleftrightarrow> isCached (clock_check w) c \<and> f \<noteq> Some True)
   \<and> \<not> isCached now (invalidateCache c)"
proof -
  have a: "isCached now c \<longleftrightarrow> (\<exists>t. lastUpdate c = Some t \<and> t \<noteq> 0 \<and> now - t < 60000)"
    by (simp add: isCached_def GLOSSARY_CACHE_TTL_def split: option.splits)
  have b: "snd (snd (readGlossaryList w c)) = [] \<longleftrightarrow> isCached (clock_check w) c"
    by (simp add: readGlossaryList_def fetch_requests)
  have b': "readGlossaryList w c = (Inr (glossaries c), c, []) \<longleftrightarrow> isCached (clock_check w) c"
    using b by (auto simp: readGlossaryList_cached)
  have d: "snd (snd (readGlossaryList_force w f c)) = []
        \<longleftrightarrow> isCached (clock_check w) c \<and> f \<noteq> Some True"
    by (cases f) (auto simp: readGlossaryList_force_def fetch_requests)
  have d': "readGlossaryList_force w f c = (Inr (glossaries c), c, [])
        \<longleftrightarrow> isCached (clock_check w) c \<and> f \<noteq> Some True"
  proof
    assume "readGlossaryList_force w f c = (Inr (glossaries c), c, [])"
    then have "snd (snd (readGlossaryList_force w f c)) = []" by simp
    with d show "isCached (clock_check w) c \<and> f \<noteq> Some True" by simp
  next
    assume "isCached (clock_check w) c \<and> f \<noteq> Some True"
    then show "readGlossaryList_force w f c = (Inr (glossaries c), c, [])"
      by (cases f) (auto simp: readGlossaryList_force_def)
  qed
  show ?thesis using a b b' d d' isCached_invalidate by blast
qed

section \<open>The glossary identifier of a translation request\<close>

lemma getGlossaryId_fail:
  "fst (readGlossaryList w c) = Inl e \<Longrightarrow> fst (getGlossaryId w t f c) = Inl e"
  by (cases "readGlossaryList w c") (simp add: getGlossaryId_def getGlossaryIds_def)

lemma getGlossaryId_no_match:
  "fst (readGlossaryList w c) = Inr (Some gs) \<Longrightarrow>
   filter (\<lambda>g. source_lang g = f \<and> target_lang g = t) gs = [] \<Longrightarrow>
   fst (getGlossaryId w t f c) = Inr None"
  by (cases "readGlossaryList w c") (simp add: getGlossaryId_def getGlossaryIds_def)

lemma identifier_try_cases:
  "fst (glossaryIdentifier_try dir w opts c) =
     (case (opt_from opts, opt_to opts) of
        (Some f, Some t) \<Rightarrow>
          if isEnabled dir \<and> f \<noteq> [] \<and> t \<noteq> [] then
            (case fst (getGlossaryId w t f c) of
               Inl e \<Rightarrow> Inl e
             | Inr None \<Rightarrow> Inr None
             | Inr (Some g) \<Rightarrow>
                 if g = [] then Inr None else Inr (Some (GlossaryIdentifyingPartial g)))
          else Inr None
      | _ \<Rightarrow> Inr None)"
  by (cases "opt_from opts"; cases "opt_to opts")
     (auto simp: glossaryIdentifier_try_def truthy_def
           split: prod.splits sum.splits option.splits)

lemma identifier_result:
  "fst (getTranslationRequestGlossaryIdentifier dir w opts c) =
     Inr (case fst (glossaryIdentifier_try dir w opts c) of
            Inr (Some p) \<Rightarrow> p
          | _ \<Rightarrow> EmptyObject)"
  by (simp add: getTranslationRequestGlossaryIdentifier_def
           split: prod.splits sum.splits option.splits)

text \<open>
  C9. \<^verbatim>\<open>getTranslationRequestGlossaryIdentifier\<close> always returns, never throws: its
  result is the empty object or an object with exactly a (non-empty) glossary id. It is
  the empty object whenever glossaries are disabled, whenever \<^verbatim>\<open>from\<close> or \<^verbatim>\<open>to\<close> is
  missing, whenever reading the glossary list or looking the id up fails, and whenever
  no glossary of the list matches the language pair.
\<close>

theorem glossaryIdentifier_never_throws:
  "(\<exists>p. fst (getTranslationRequestGlossaryIdentifier dir w opts c) = Inr p
        \<and> (p = EmptyObject \<or> (\<exists>g. g \<noteq> [] \<and> p = GlossaryIdentifyingPartial g)))
   \<and> (\<not> isEnabled dir \<longrightarrow>
        fst (getTranslationRequestGlossaryIdentifier dir w opts c) = Inr EmptyObject)
   \<and> (\<not> truthy (opt_from opts) \<or> \<not> truthy (opt_to opts) \<longrightarrow>
        fst (getTranslationRequestGlossaryIdentifier dir w opts c) = Inr EmptyObject)
   \<and> ((\<exists>e. fst (readGlossaryList w c) = Inl e) \<longrightarrow>
        fst (getTranslationRequestGlossaryIdentifier dir w opts c) = Inr EmptyObject)
   \<and> ((\<exists>f t e. opt_from opts = Some f \<and> opt_to opts = Some t
          \<and> fst (getGlossaryId w t f c) = Inl e) \<longrightarrow>
        fst (getTranslationRequestGlossaryIdentifier dir w opts c) = Inr EmptyObject)
   \<and> ((\<exists>f t gs. opt_from opts = Some f \<and> opt_to opts = Some t
          \<and> fst (readGlossaryList w c) = Inr (Some gs)
          \<and> filter (\<lambda>g. source_lang g = f \<and> target_lang g = t) gs = []) \<longrightarrow>
        fst (getTranslationRequestGlossaryIdentifier dir w opts c) = Inr EmptyObject)"
proof -
  let ?G = "fst (getTranslationRequestGlossaryIdentifier dir w opts c)"
  have shape: "\<exists>p. ?G = Inr p
      \<and> (p = EmptyObject \<or> (\<exists>g. g \<noteq> [] \<and> p = GlossaryIdentifyingPartial g))"
    unfolding identifier_result identifier_try_cases
    by (auto split: option.splits sum.splits)
  have disabled: "\<not> isEnabled dir \<longrightarrow> ?G = Inr EmptyObject"
    unfolding identifier_result identifier_try_cases
    by (auto split: option.splits sum.splits)
  have missing: "\<not> truthy (opt_from opts) \<or> \<not> truthy (opt_to opts) \<longrightarrow> ?G = Inr EmptyObject"
    unfolding identifier_result identifier_try_cases
    by (auto simp: truthy_def split: option.splits sum.splits)
  have fails: "(\<exists>f t e. opt_from opts = Some f \<and> opt_to opts = Some t
          \<and> fst (getGlossaryId w t f c) = Inl e) \<longrightarrow> ?G = Inr EmptyObject"
    unfolding identifier_result identifier_try_cases
    by (auto split: option.splits sum.splits)
  have list_fails: "(\<exists>e. fst (readGlossaryList w c) = Inl e) \<longrightarrow> ?G = Inr EmptyObject"
  proof
    assume "\<exists>e. fst (readGlossaryList w c) = Inl e"
    then obtain e where "fst (readGlossaryList w c) = Inl e" ..
    then have "\<And>t f. fst (getGlossaryId w t f c) = Inl e" by (rule getGlossaryId_fail)
    then show "?G = Inr EmptyObject"
      unfolding identifier_result identifier_try_cases
      by (simp split: option.splits)
  qed
  have no_match: "(\<exists>f t gs. opt_from opts = Some f \<and> opt_to opts = Some t
          \<and> fst (readGlossaryList w c) = Inr (Some gs)
          \<and> filter (\<lambda>g. source_lang g = f \<and> target_lang g = t) gs = [])
        \<longrightarrow> ?G = Inr EmptyObject"
  proof
    assume "\<exists>f t gs. opt_from opts = Some f \<and> opt_to opts = Some t
          \<and> fst (readGlossaryList w c) = Inr (Some gs)
          \<and> filter (\<lambda>g. source_lang g = f \<and> target_lang g = t) gs = []"
    then obtain f t gs where ft: "opt_from opts = Some f" "opt_to opts = Some t"
      and "fst (readGlossaryList w c) = Inr (Some gs)"
      and "filter (\<lambda>g. source_lang g = f \<and> target_lang g = t) gs = []"
      by blast
    then have "fst (getGlossaryId w t f c) = Inr None" by (simp add: getGlossaryId_no_match)
    with ft show "?G = Inr EmptyObject"
      unfolding identifier_result identifier_try_cases by simp
  qed
  from shape disabled missing list_fails fails no_match show ?thesis by blast
qed

theorem glossaryIdentifier_never_throws_witness:
  "fst (readGlossaryList example_world_failing initial_cache) = Inl (RequestFailed ''timeout'')
   \<and> fst (getTranslationRequestGlossaryIdentifier (Some ''glossaries'') example_world_failing
           example_options initial_cache) = Inr EmptyObject
   \<and> fst (getTranslationRequestGlossaryIdentifier None example_world
           example_options initial_cache) = Inr EmptyObject
   \<and> fst (getTranslationRequestGlossaryIdentifier (Some ''glossaries'') example_world
           example_options initial_cache) = Inr (GlossaryIdentifyingPartial ''g1'')"
  using glossaryIdentifier_never_throws
          [of "Some ''glossaries''" example_world_failing example_options initial_cache]
        glossaryIdentifier_never_throws
          [of None example_world example_options initial_cache]
        glossaryIdentifier_never_throws
          [of "Some ''glossaries''" example_world example_options initial_cache]
  by (simp add: getTranslationRequestGlossaryIdentifier_def glossaryIdentifier_try_def
        getGlossaryId_def getGlossaryIds_def readGlossaryList_def fetch_glossary_list_def
        isCached_def isEnabled_def truthy_def initial_cache_def example_world_def
        example_world_failing_def example_options_def)

section \<open>Updating a glossary\<close>

lemma invalidateCache_value:
  "invalidateCache c = \<lparr> lastUpdate = Some 0, glossaries = Some [] \<rparr>"
  by (simp add: invalidateCache_def)

lemma updateGlossary_outcomes:
  "fst (updateGlossary example_world ''de'' ''en'' ''a,b'' initial_cache) = Inr ()
   \<and> fst (updateGlossary example_world ''de'' ''en'' [] initial_cache)
       = Inl (EmptyGlossaryContent ''en'' ''de'')
   \<and> fst (updateGlossary example_world_failing ''de'' ''en'' ''a,b'' initial_cache)
       = Inl (RequestFailed ''timeout'')"
  by (simp add: updateGlossary_def updateGlossary_try_def createGlossary_def
        getGlossaryIds_def readGlossaryList_def fetch_glossary_list_def isCached_def
        initial_cache_def example_world_def example_world_failing_def)

text \<open>
  C10. However a call of \<^verbatim>\<open>updateGlossary\<close> ends, with a normal return or with an
  error, the cache it leaves is the invalidated one (\<open>lastUpdate = 0\<close>, no glossaries);
  that cache is not fresh at any time, so the next \<^verbatim>\<open>readGlossaryList\<close> asks the server.
\<close>

theorem updateGlossary_invalidates:
  "fst (snd (updateGlossary w t s content c)) = \<lparr> lastUpdate = Some 0, glossaries = Some [] \<rparr>
   \<and> \<not> isCached now (fst (snd (updateGlossary w t s content c)))
   \<and> readGlossaryList w' (fst (snd (updateGlossary w t s content c)))
       = fetch_glossary_list w' \<lparr> lastUpdate = Some 0, glossaries = Some [] \<rparr>"
proof -
  obtain r c' rq dels where u: "updateGlossary_try w t s content c = (r, c', rq, dels)"
    by (cases "updateGlossary_try w t s content c") auto
  then have e: "fst (snd (updateGlossary w t s content c)) = invalidateCache c'"
    by (simp add: updateGlossary_def)
  show ?thesis
    unfolding e using isCached_invalidate [of _ c']
    by (simp add: readGlossaryList_stale invalidateCache_value)
qed

end
